theory Spec2Isabelle
  imports Complex_Main
begin

section \<open>SmartCalculator: lexer, shunting-yard converter and postfix evaluator\<close>

text \<open>
  A shallow embedding of \<^verbatim>\<open>SmartCalculator.cpp\<close>.

  \<^item> A \<^verbatim>\<open>double\<close> is modelled by a \<^typ>\<open>real\<close>: rounding, infinities and NaN are
    outside the model. The integer values of the examples below (5, 6, 14, 20, 64) are
    also what the doubles compute, without rounding.
  \<^item> The pair \<^verbatim>\<open>(expression, index)\<close> of the lexer is modelled by the unread suffix
    \<^verbatim>\<open>expression.substr(index)\<close>: \<^verbatim>\<open>index++\<close> drops the first character and
    \<^verbatim>\<open>index < expression.size()\<close> says that the suffix is not empty.
  \<^item> A \<^verbatim>\<open>std::stack\<close> is a list whose head is the top; a \<^verbatim>\<open>std::vector\<close> filled by
    \<^verbatim>\<open>push_back\<close> is a list that grows at its end.
  \<^item> A \<^verbatim>\<open>std::runtime_error\<close> is an \<open>error\<close> value. Calling \<^verbatim>\<open>top()\<close> or \<^verbatim>\<open>pop()\<close> on
    an empty \<^verbatim>\<open>std::stack\<close> is undefined behaviour in C++; the model stops there with the
    fault \<open>EmptyStack\<close>, which is not an exception of the program.
  \<^item> The variable store \<^verbatim>\<open>std::map<std::string, double>\<close> is a map, passed in and
    returned by every function that receives it by non-const reference.
\<close>

subsection \<open>Tokens\<close>

datatype TokenType = NUMBER | OPERATOR | FUNCTION | VARIABLE | ASSIGNMENT | PARENTHESIS | END

record Token =
  tok_type :: TokenType
  tok_value :: real
  tok_op :: char
  tok_func :: string

text \<open>
  The fields \<^verbatim>\<open>type\<close>, \<^verbatim>\<open>value\<close>, \<^verbatim>\<open>op\<close> and \<^verbatim>\<open>func\<close> of the source carry the prefix
  \<open>tok_\<close> here. The aggregate initialiser \<^verbatim>\<open>{type, value, op, func}\<close>:
\<close>

definition mk_token :: "TokenType \<Rightarrow> real \<Rightarrow> char \<Rightarrow> string \<Rightarrow> Token" where
  "mk_token t v c f = \<lparr>tok_type = t, tok_value = v, tok_op = c, tok_func = f\<rparr>"

text \<open>The character with code 0, which the initialisers write as \<^verbatim>\<open>0\<close>.\<close>

definition NUL :: char where
  "NUL = CHR 0x00"

datatype error =
    UnexpectedCharacter char
  | DivisionByZero
  | UnknownOperator
  | UnknownFunction string
  | UndefinedVariable string

datatype fault = Thrown error | EmptyStack

type_synonym 'a result = "fault + 'a"

type_synonym variables = "string \<rightharpoonup> real"

subsection \<open>Character classes of the C locale\<close>

text \<open>
  The program never sets a locale, so \<^verbatim>\<open>isspace\<close>, \<^verbatim>\<open>isdigit\<close>, \<^verbatim>\<open>isalpha\<close> and
  \<^verbatim>\<open>isalnum\<close> classify ASCII; a byte from 0x80 on is in no class.
\<close>

definition isspace :: "char \<Rightarrow> bool" where
  "isspace c = (c \<in> set [CHR 0x09, CHR 0x0A, CHR 0x0B, CHR 0x0C, CHR 0x0D, CHR '' ''])"

definition isdigit :: "char \<Rightarrow> bool" where
  "isdigit c = (c \<in> set ''0123456789'')"

definition isalpha :: "char \<Rightarrow> bool" where
  "isalpha c = (c \<in> set ''abcdefghijklmnopqrstuvwxyzABCDEFGHIJKLMNOPQRSTUVWXYZ'')"

definition isalnum :: "char \<Rightarrow> bool" where
  "isalnum c = (isalpha c \<or> isdigit c)"

text \<open>
  \<^verbatim>\<open>strchr("+-*/^=()", c)\<close> is not null for the eight characters of the string and for
  the terminating character 0.
\<close>

definition strchr_ops :: "char \<Rightarrow> bool" where
  "strchr_ops c = (c \<in> set ''+-*/^=()'' \<or> c = NUL)"

text \<open>\<^verbatim>\<open>expression[index] - '0'\<close>, converted to \<^verbatim>\<open>double\<close>.\<close>

definition digit_value :: "char \<Rightarrow> real" where
  "digit_value c = real_of_int (of_char c - of_char (CHR ''0''))"

text \<open>
  \<^verbatim>\<open>pow(x, y)\<close> of \<^verbatim>\<open><cmath>\<close> on the reals: an integral exponent is a repeated product
  or quotient (so that \<^verbatim>\<open>pow(x, 0)\<close> is 1 and a negative base is allowed), any other
  exponent is \<open>exp (y * ln x)\<close>.
\<close>

definition pow :: "real \<Rightarrow> real \<Rightarrow> real" where
  "pow x y = (if real_of_int \<lfloor>y\<rfloor> = y then x powi \<lfloor>y\<rfloor> else x powr y)"

subsection \<open>Static tables\<close>

definition precedences :: "char \<rightharpoonup> int" where
  "precedences = map_of
     [(CHR ''+'', 1), (CHR ''-'', 1), (CHR ''*'', 2), (CHR ''/'', 2), (CHR ''^'', 3)]"

definition functions_set :: "string list" where
  "functions_set = [''sin'', ''cos'', ''tan'', ''log'', ''sqrt'', ''exp'']"

subsection \<open>GetNextToken\<close>

text \<open>The two loops that skip white space (lines 78-82 and 136-140).\<close>

fun skip_spaces :: "string \<Rightarrow> string" where
  "skip_spaces [] = []"
| "skip_spaces (c # cs) = (if isspace c then skip_spaces cs else c # cs)"

text \<open>
  The loop of lines 96-119, with its variables \<^verbatim>\<open>num\<close> and \<^verbatim>\<open>decimals\<close>. The counter
  \<^verbatim>\<open>decimals\<close> is an \<^verbatim>\<open>int\<close> that counts digits of the input, so it stays below
  \<open>2^31\<close> for every input shorter than that and is modelled by an unbounded integer.
\<close>

fun number_loop :: "string \<Rightarrow> real \<Rightarrow> int \<Rightarrow> real \<times> string" where
  "number_loop [] num decimals = (num, [])"
| "number_loop (c # cs) num decimals =
     (if isdigit c \<or> c = CHR ''.'' then
        (if c = CHR ''.'' then number_loop cs num 0
         else if decimals = - 1 then number_loop cs (num * 10 + digit_value c) decimals
         else number_loop cs (num + digit_value c * pow 10 (real_of_int (- decimals)))
                (decimals + 1))
      else (num, c # cs))"

text \<open>The loop of lines 128-134, with its variable \<^verbatim>\<open>name\<close>.\<close>

fun name_loop :: "string \<Rightarrow> string \<Rightarrow> string \<times> string" where
  "name_loop [] name = (name, [])"
| "name_loop (c # cs) name =
     (if isalnum c then name_loop cs (name @ [c]) else (name, c # cs))"

definition GetNextToken :: "string \<Rightarrow> (Token \<times> string) result" where
  "GetNextToken expression =
     (case skip_spaces expression of
        [] \<Rightarrow> Inr (mk_token END 0 NUL '''', [])
      | c # cs \<Rightarrow>
          if isdigit c \<or> c = CHR ''.'' then
            (case number_loop (c # cs) 0 (- 1) of
               (num, rest) \<Rightarrow> Inr (mk_token NUMBER num NUL '''', rest))
          else if isalpha c then
            (case name_loop (c # cs) '''' of
               (name, rest) \<Rightarrow>
                 (case skip_spaces rest of
                    [] \<Rightarrow>
                      if name \<in> set functions_set then Inr (mk_token FUNCTION 0 NUL name, [])
                      else Inr (mk_token VARIABLE 0 NUL name, [])
                  | d # ds \<Rightarrow>
                      if d = CHR ''='' then Inr (mk_token ASSIGNMENT 0 NUL name, ds)
                      else if name \<in> set functions_set
                      then Inr (mk_token FUNCTION 0 NUL name, d # ds)
                      else Inr (mk_token VARIABLE 0 NUL name, d # ds)))
          else if strchr_ops c then
            Inr (mk_token (if c = CHR ''('' \<or> c = CHR '')'' then PARENTHESIS else OPERATOR)
                   0 c '''', cs)
          else Inl (Thrown (UnexpectedCharacter c)))"

text \<open>The five operators that \<open>GetOperatorResult\<close> knows.\<close>

definition binary_operator :: "char \<Rightarrow> bool" where
  "binary_operator c = (c \<in> set ''+-*/^'')"

text \<open>
  The names the lexer reads as one identifier: a letter followed by letters and digits.
\<close>

definition is_identifier :: "string \<Rightarrow> bool" where
  "is_identifier name = (name \<noteq> [] \<and> isalpha (hd name) \<and> list_all isalnum name)"

subsection \<open>Operators and functions\<close>

definition GetPrecedence :: "char \<Rightarrow> int" where
  "GetPrecedence c = (case precedences c of Some p \<Rightarrow> p | None \<Rightarrow> 0)"

definition GetOperatorResult :: "char \<Rightarrow> real \<Rightarrow> real \<Rightarrow> real result" where
  "GetOperatorResult c first second =
     (if c = CHR ''+'' then Inr (first + second)
      else if c = CHR ''-'' then Inr (first - second)
      else if c = CHR ''*'' then Inr (first * second)
      else if c = CHR ''/'' then
        (if second = 0 then Inl (Thrown DivisionByZero) else Inr (first / second))
      else if c = CHR ''^'' then Inr (pow first second)
      else Inl (Thrown UnknownOperator))"

definition GetFunctionResult :: "string \<Rightarrow> real \<Rightarrow> real result" where
  "GetFunctionResult f arg =
     (if f = ''sin'' then Inr (sin arg)
      else if f = ''cos'' then Inr (cos arg)
      else if f = ''tan'' then Inr (tan arg)
      else if f = ''log'' then Inr (ln arg)
      else if f = ''sqrt'' then Inr (sqrt arg)
      else if f = ''exp'' then Inr (exp arg)
      else Inl (Thrown (UnknownFunction f)))"

subsection \<open>EvaluatePostfix\<close>

text \<open>
  \<^verbatim>\<open>variables[key]\<close> of \<^verbatim>\<open>std::map\<close>: an absent key is inserted with the value 0 before
  its value is read.
\<close>

definition map_index :: "variables \<Rightarrow> string \<Rightarrow> real \<times> variables" where
  "map_index vars k =
     (case vars k of Some v \<Rightarrow> (v, vars) | None \<Rightarrow> (0, vars(k \<mapsto> 0)))"

text \<open>
  The loop over the postfix sequence (lines 323-360) and the final \<^verbatim>\<open>stack.top()\<close>
  (line 362), with the operand stack and the store as they stand.
\<close>

fun EvaluatePostfix_loop ::
  "Token list \<Rightarrow> real list \<Rightarrow> variables \<Rightarrow> real result \<times> variables" where
  "EvaluatePostfix_loop [] stack vars =
     (case stack of [] \<Rightarrow> (Inl EmptyStack, vars) | top_v # _ \<Rightarrow> (Inr top_v, vars))"
| "EvaluatePostfix_loop (token # postfix) stack vars =
     (if tok_type token = NUMBER then
        EvaluatePostfix_loop postfix (tok_value token # stack) vars
      else if tok_type token = VARIABLE then
        (if vars (tok_func token) \<noteq> None then
           (case map_index vars (tok_func token) of
              (v, vars') \<Rightarrow> EvaluatePostfix_loop postfix (v # stack) vars')
         else (Inl (Thrown (UndefinedVariable (tok_func token))), vars))
      else if tok_type token = OPERATOR then
        (case stack of
           [] \<Rightarrow> (Inl EmptyStack, vars)
         | top_v # stack' \<Rightarrow>
             (case stack' of
                [] \<Rightarrow> (Inl EmptyStack, vars)
              | bottom # stack'' \<Rightarrow>
                  (case GetOperatorResult (tok_op token) bottom top_v of
                     Inl e \<Rightarrow> (Inl e, vars)
                   | Inr r \<Rightarrow> EvaluatePostfix_loop postfix (r # stack'') vars)))
      else if tok_type token = FUNCTION then
        (case stack of
           [] \<Rightarrow> (Inl EmptyStack, vars)
         | arg # stack' \<Rightarrow>
             (case GetFunctionResult (tok_func token) arg of
                Inl e \<Rightarrow> (Inl e, vars)
              | Inr r \<Rightarrow> EvaluatePostfix_loop postfix (r # stack') vars))
      else EvaluatePostfix_loop postfix stack vars)"

definition EvaluatePostfix :: "Token list \<Rightarrow> variables \<Rightarrow> real result \<times> variables" where
  "EvaluatePostfix postfix vars = EvaluatePostfix_loop postfix [] vars"

text \<open>
  The precondition under which the evaluator never touches an empty operand stack,
  stated on the sequence alone: \<open>depth\<close> is the number of values on the stack before
  the first token. Every operator finds two values, every function one, and exactly one
  value is left at the end.
\<close>

fun well_formed :: "Token list \<Rightarrow> nat \<Rightarrow> bool" where
  "well_formed [] depth = (depth = 1)"
| "well_formed (token # postfix) depth =
     (if tok_type token = NUMBER \<or> tok_type token = VARIABLE then
        well_formed postfix (depth + 1)
      else if tok_type token = OPERATOR then 2 \<le> depth \<and> well_formed postfix (depth - 1)
      else if tok_type token = FUNCTION then 1 \<le> depth \<and> well_formed postfix depth
      else well_formed postfix depth)"

subsection \<open>InfixToPostfix and EvaluateExpression\<close>

text \<open>The loop of lines 268-274 for an incoming operator \<open>c\<close>.\<close>

fun pop_operators :: "Token list \<Rightarrow> Token list \<Rightarrow> char \<Rightarrow> Token list \<times> Token list" where
  "pop_operators [] result c = ([], result)"
| "pop_operators (t # stack) result c =
     (if GetPrecedence (tok_op t) \<ge> GetPrecedence c
      then pop_operators stack (result @ [t]) c
      else (t # stack, result))"

text \<open>The loop of lines 286-292 for a closing parenthesis.\<close>

fun pop_to_paren :: "Token list \<Rightarrow> Token list \<Rightarrow> Token list \<times> Token list" where
  "pop_to_paren [] result = ([], result)"
| "pop_to_paren (t # stack) result =
     (if tok_op t \<noteq> CHR ''(''
      then pop_to_paren stack (result @ [t])
      else (t # stack, result))"

text \<open>The loop of lines 309-314 that empties the stack at the end of the input.\<close>

fun drain :: "Token list \<Rightarrow> Token list \<Rightarrow> Token list" where
  "drain [] result = result"
| "drain (t # stack) result = drain stack (result @ [t])"

subsection \<open>The grouping that the precedence table prescribes\<close>

text \<open>
  These definitions are not taken from the source: they say what it means for binary
  operators to group by precedence, and to the left at equal precedence, so that the
  converter can be compared with it. An expression is a tree of integer literals,
  parenthesised expressions and binary operators. \<open>grouped p e\<close> says that \<open>e\<close>, written
  out by \<open>render\<close> with only the parentheses of its \<open>Par\<close> nodes, reads as that tree where
  an operand of precedence at least \<open>p\<close> is expected: the left operand of an operator
  holds, outside parentheses, operators of the same or a higher precedence only, and the
  right operand operators of a higher precedence only. \<open>postfix_of\<close> is the postfix
  sequence of the tree and \<open>value_of\<close> its value, computed bottom-up with
  \<open>GetOperatorResult\<close>.
\<close>

datatype expr = Num string | Par expr | Bin expr char expr

fun grouped :: "int \<Rightarrow> expr \<Rightarrow> bool" where
  "grouped p (Num lit) = (lit \<noteq> [] \<and> list_all isdigit lit)"
| "grouped p (Par e) = grouped 1 e"
| "grouped p (Bin l c r) =
     (binary_operator c \<and> p \<le> GetPrecedence c
      \<and> grouped (GetPrecedence c) l \<and> grouped (GetPrecedence c + 1) r)"

fun render :: "expr \<Rightarrow> string" where
  "render (Num lit) = lit"
| "render (Par e) = CHR ''('' # render e @ '')''"
| "render (Bin l c r) = render l @ c # render r"







text \<open>Every token consumes input, which bounds the loop and the recursion below.\<close>

lemma skip_spaces_length: "length (skip_spaces s) \<le> length s"
  by (induction s) auto

lemma number_loop_length: "number_loop s n d = (v, r) \<Longrightarrow> length r \<le> length s"
  by (induction s n d rule: number_loop.induct) (auto split: if_splits)

lemma name_loop_length: "name_loop s n = (v, r) \<Longrightarrow> length r \<le> length s"
  by (induction s n rule: name_loop.induct) (auto split: if_splits)

lemma number_loop_shorter:
  "isdigit c \<or> c = CHR ''.'' \<Longrightarrow> number_loop (c # cs) n d = (v, r)
    \<Longrightarrow> length r \<le> length cs"
  by (auto split: if_splits dest: number_loop_length)

lemma name_loop_shorter:
  "isalnum c \<Longrightarrow> name_loop (c # cs) n = (v, r) \<Longrightarrow> length r \<le> length cs"
  by (auto split: if_splits dest: name_loop_length)

lemma isalpha_isalnum: "isalpha c \<Longrightarrow> isalnum c"
  by (simp add: isalnum_def)

lemma GetNextToken_shorter:
  assumes "GetNextToken rest = Inr (tok, rest')" and "rest \<noteq> []"
  shows "length rest' < length rest"
proof (cases "skip_spaces rest")
  case Nil
  with assms show ?thesis by (simp add: GetNextToken_def)
next
  case (Cons c cs)
  have le: "Suc (length cs) \<le> length rest"
    using skip_spaces_length [of rest] Cons by simp
  have "length rest' \<le> length cs"
    using assms(1) Cons
    by (auto simp: GetNextToken_def simp del: number_loop.simps name_loop.simps
        split: if_splits prod.splits list.splits
        dest!: number_loop_shorter [rotated] name_loop_shorter [rotated] isalpha_isalnum
        dest: order_trans [OF skip_spaces_length])
  with le show ?thesis by simp
qed

text \<open>
  The main loop of \<open>InfixToPostfix\<close> (lines 256-307) and the loop that empties the stack,
  with the unread input, the operator stack, the output and the store as they stand.
  On an assignment token the loop leaves through \<open>EvaluateExpression\<close> on the unread
  input, so the three functions are mutually recursive.
\<close>

function InfixToPostfix_loop ::
    "string \<Rightarrow> Token list \<Rightarrow> Token list \<Rightarrow> variables \<Rightarrow> Token list result \<times> variables"
  and InfixToPostfix :: "string \<Rightarrow> variables \<Rightarrow> Token list result \<times> variables"
  and EvaluateExpression :: "string \<Rightarrow> variables \<Rightarrow> real result \<times> variables"
where
  "InfixToPostfix_loop rest stack result vars =
     (if rest = [] then (Inr (drain stack result), vars)
      else
        (case GetNextToken rest of
           Inl e \<Rightarrow> (Inl e, vars)
         | Inr (token, rest') \<Rightarrow>
             if tok_type token = NUMBER \<or> tok_type token = VARIABLE
                \<or> tok_type token = FUNCTION then
               InfixToPostfix_loop rest' stack (result @ [token]) vars
             else if tok_type token = OPERATOR then
               (case pop_operators stack result (tok_op token) of
                  (stack', result') \<Rightarrow> InfixToPostfix_loop rest' (token # stack') result' vars)
             else if tok_type token = PARENTHESIS then
               (if tok_op token = CHR ''('' then
                  InfixToPostfix_loop rest' (token # stack) result vars
                else if tok_op token = CHR '')'' then
                  (case pop_to_paren stack result of
                     (stack', result') \<Rightarrow>
                       (case stack' of
                          [] \<Rightarrow> (Inl EmptyStack, vars)
                        | _ # stack'' \<Rightarrow> InfixToPostfix_loop rest' stack'' result' vars))
                else InfixToPostfix_loop rest' stack result vars)
             else if tok_type token = ASSIGNMENT then
               (case EvaluateExpression rest' vars of
                  (Inl e, vars') \<Rightarrow> (Inl e, vars')
                | (Inr v, vars') \<Rightarrow>
                    (Inr [mk_token NUMBER v NUL ''''], vars'(tok_func token \<mapsto> v)))
             else InfixToPostfix_loop rest' stack result vars))"
| "InfixToPostfix expression vars = InfixToPostfix_loop expression [] [] vars"
| "EvaluateExpression expression vars =
     (case InfixToPostfix expression vars of
        (Inl e, vars') \<Rightarrow> (Inl e, vars')
      | (Inr postfix, vars') \<Rightarrow> EvaluatePostfix postfix vars')"
  by pat_completeness auto
termination
  apply (relation "inv_image (less_than <*lex*> less_than)
     (\<lambda>x. case x of
        Inl (rest, stack, result, vars) \<Rightarrow> (length rest, 0::nat)
      | Inr (Inl (expression, vars)) \<Rightarrow> (length expression, 1)
      | Inr (Inr (expression, vars)) \<Rightarrow> (length expression, 2))")
  apply (auto dest: GetNextToken_shorter)
  done

declare InfixToPostfix_loop.simps [simp del] InfixToPostfix.simps [simp del]
  EvaluateExpression.simps [simp del]

lemma InfixToPostfix_loop_Nil:
  "InfixToPostfix_loop [] stack result vars = (Inr (drain stack result), vars)"
  by (simp add: InfixToPostfix_loop.simps)

lemmas InfixToPostfix_loop_Cons =
  InfixToPostfix_loop.simps [of "c # cs" for c cs, simplified]

subsection \<open>Evaluating \<open>pow\<close> at numerals\<close>

lemma pow_of_int: "pow x (real_of_int k) = x powi k"
  by (simp add: pow_def)

lemma pow_0: "pow x 0 = 1"
  using pow_of_int [of x 0] by simp

lemma pow_1: "pow x 1 = x"
  using pow_of_int [of x 1] by simp

lemma pow_minus_1: "pow x (- 1) = inverse x"
  using pow_of_int [of x "- 1"] by simp

lemma pow_numeral: "pow x (numeral n) = x ^ numeral n"
  using pow_of_int [of x "numeral n"] by simp

lemma pow_neg_numeral: "pow x (- numeral n) = inverse x ^ numeral n"
  using pow_of_int [of x "- numeral n"] by (simp add: power_int_def)

lemmas pow_simps = pow_0 pow_1 pow_minus_1 pow_numeral pow_neg_numeral

lemmas eval_defs =
  EvaluateExpression.simps InfixToPostfix.simps
  InfixToPostfix_loop_Nil InfixToPostfix_loop_Cons GetNextToken_def
  isdigit_def isspace_def isalpha_def isalnum_def strchr_ops_def digit_value_def
  pow_simps mk_token_def NUL_def EvaluatePostfix_def GetPrecedence_def precedences_def
  GetOperatorResult_def functions_set_def map_index_def

section \<open>The postfix evaluator and the variable store\<close>

lemma map_index_present: "vars k \<noteq> None \<Longrightarrow> map_index vars k = (the (vars k), vars)"
  by (auto simp: map_index_def)

lemma EvaluatePostfix_loop_store:
  "snd (EvaluatePostfix_loop postfix stack vars) = vars"
proof (induction postfix stack vars rule: EvaluatePostfix_loop.induct)
  case (1 stack vars)
  then show ?case by (simp split: list.splits)
next
  case (2 token postfix stack vars)
  then show ?case
    by (auto simp: map_index_present split: list.splits sum.splits)
qed

lemma EvaluatePostfix_store: "EvaluatePostfix postfix vars = (r, vars') \<Longrightarrow> vars' = vars"
  using EvaluatePostfix_loop_store [of postfix "[]" vars] by (simp add: EvaluatePostfix_def)

text \<open>
  Claim C9. \<open>EvaluatePostfix\<close> receives the store by non-const reference and reads it
  with \<^verbatim>\<open>variables[token.func]\<close>, which would insert an absent key; the guard
  \<^verbatim>\<open>find(...) != end()\<close> keeps that from happening. For every postfix sequence and every
  store, the store after the call, whether a value is returned or the evaluation fails,
  is the store before the call.
\<close>

theorem EvaluatePostfix_never_writes_store:
  "snd (EvaluatePostfix postfix vars) = vars"
  by (simp add: EvaluatePostfix_def EvaluatePostfix_loop_store)

section \<open>Failures leave the store alone\<close>

lemma store_changes_only_on_success:
  "\<forall>r vars'. InfixToPostfix_loop rest stack result vars = (r, vars') \<longrightarrow>
     vars' = vars \<or> (\<exists>v. r = Inr [mk_token NUMBER v NUL []])"
  "\<forall>r vars'. InfixToPostfix expression1 vars1 = (r, vars') \<longrightarrow>
     vars' = vars1 \<or> (\<exists>v. r = Inr [mk_token NUMBER v NUL []])"
  "\<forall>r vars'. EvaluateExpression expression2 vars2 = (r, vars') \<longrightarrow>
     vars' = vars2 \<or> (\<exists>v. r = Inr v)"
proof (induction rest stack result vars and expression1 vars1 and expression2 vars2
    rule: InfixToPostfix_loop_InfixToPostfix_EvaluateExpression.induct)
  case (1 rest stack result vars)
  show ?case
  proof (intro allI impI)
    fix r vars'
    assume a: "InfixToPostfix_loop rest stack result vars = (r, vars')"
    show "vars' = vars \<or> (\<exists>v. r = Inr [mk_token NUMBER v NUL []])"
    proof (cases "rest = []")
      case True
      with a show ?thesis by (simp add: InfixToPostfix_loop_Nil)
    next
      case False
      show ?thesis
      proof (cases "GetNextToken rest")
        case (Inl e)
        with a False show ?thesis
          by (simp add: InfixToPostfix_loop.simps [of rest stack result vars])
      next
        case (Inr b)
        obtain token rest' where b: "b = (token, rest')" by (cases b)
        note IH = "1" [OF False Inr b [symmetric]]
        from a False Inr b IH show ?thesis
          by (auto simp: InfixToPostfix_loop.simps [of rest stack result vars]
              split: if_splits prod.splits list.splits sum.splits)
      qed
    qed
  qed
next
  case (2 expression vars)
  then show ?case by (simp add: InfixToPostfix.simps)
next
  case (3 expression vars)
  show ?case
  proof (intro allI impI)
    fix r vars'
    assume a: "EvaluateExpression expression vars = (r, vars')"
    obtain q vars1 where q: "InfixToPostfix expression vars = (q, vars1)"
      by (cases "InfixToPostfix expression vars")
    with "3" have d: "vars1 = vars \<or> (\<exists>v. q = Inr [mk_token NUMBER v NUL []])"
      by blast
    show "vars' = vars \<or> (\<exists>v. r = Inr v)"
    proof (cases q)
      case (Inl f)
      with a q d show ?thesis by (auto simp: EvaluateExpression.simps)
    next
      case (Inr postfix)
      with a q have e: "EvaluatePostfix postfix vars1 = (r, vars')"
        by (simp add: EvaluateExpression.simps)
      then have s: "vars' = vars1" by (rule EvaluatePostfix_store)
      from d show ?thesis
      proof
        assume "vars1 = vars"
        with s show ?thesis by simp
      next
        assume "\<exists>v. q = Inr [mk_token NUMBER v NUL []]"
        then obtain v where "postfix = [mk_token NUMBER v NUL []]"
          using Inr by auto
        with e have "r = Inr v"
          by (simp add: EvaluatePostfix_def mk_token_def)
        then show ?thesis by blast
      qed
    qed
  qed
qed

text \<open>
  Claim C8. If \<open>EvaluateExpression\<close> throws (unexpected character, division by zero,
  undefined variable, unknown operator or unknown function), the store is the one it was
  called with: line 303 writes the store only after the right-hand side of the
  assignment has been evaluated without error, and nothing can fail after that write,
  also when assignments are nested.
\<close>

theorem EvaluateExpression_error_keeps_store:
  "EvaluateExpression expression vars = (Inl (Thrown e), vars') \<Longrightarrow> vars' = vars"
  using store_changes_only_on_success(3) [of expression vars] by auto

theorem EvaluateExpression_error_keeps_store_witness:
  "EvaluateExpression ''x = y = 1/0'' [''z'' \<mapsto> 1]
     = (Inl (Thrown DivisionByZero), snd (EvaluateExpression ''x = y = 1/0'' [''z'' \<mapsto> 1]))
   \<and> snd (EvaluateExpression ''x = y = 1/0'' [''z'' \<mapsto> 1]) = [''z'' \<mapsto> 1]"
proof -
  have h: "EvaluateExpression ''x = y = 1/0'' [''z'' \<mapsto> 1]
     = (Inl (Thrown DivisionByZero), snd (EvaluateExpression ''x = y = 1/0'' [''z'' \<mapsto> 1]))"
    by (simp add: eval_defs)
  from EvaluateExpression_error_keeps_store [OF h] h show ?thesis by simp
qed

section \<open>The operand stack\<close>

lemma GetOperatorResult_throws: "GetOperatorResult c l r \<noteq> Inl EmptyStack"
  by (simp add: GetOperatorResult_def)

lemma GetFunctionResult_throws: "GetFunctionResult f a \<noteq> Inl EmptyStack"
  by (simp add: GetFunctionResult_def)

lemma well_formed_no_empty_stack:
  "well_formed postfix (length stack) \<Longrightarrow>
   fst (EvaluatePostfix_loop postfix stack vars) \<noteq> Inl EmptyStack"
proof (induction postfix stack vars rule: EvaluatePostfix_loop.induct)
  case (1 stack vars)
  then show ?case by (cases stack) auto
next
  case (2 token postfix stack vars)
  show ?case
  proof (cases "tok_type token")
    case NUMBER
    with 2 show ?thesis by simp
  next
    case OPERATOR
    with "2.prems" obtain r l st where st: "stack = r # l # st"
      by (cases stack; cases "tl stack") auto
    with OPERATOR 2 show ?thesis
      by (cases "GetOperatorResult (tok_op token) l r")
        (auto simp: GetOperatorResult_throws)
  next
    case FUNCTION
    with "2.prems" obtain a st where st: "stack = a # st"
      by (cases stack) auto
    with FUNCTION 2 show ?thesis
      by (cases "GetFunctionResult (tok_func token) a")
        (auto simp: GetFunctionResult_throws)
  next
    case VARIABLE
    with 2 show ?thesis
      by (cases "vars (tok_func token)") (auto simp: map_index_def)
  next
    case ASSIGNMENT
    with 2 show ?thesis by simp
  next
    case PARENTHESIS
    with 2 show ?thesis by simp
  next
    case END
    with 2 show ?thesis by simp
  qed
qed

text \<open>
  Claim C10. \<open>EvaluatePostfix\<close> is defined on a well-formed postfix sequence: it returns a
  value or throws one of the program's errors, and never calls \<^verbatim>\<open>top()\<close> or \<^verbatim>\<open>pop()\<close>
  on an empty operand stack. Without the precondition it does: the public entry point
  reaches such a call on the empty string, on the lone operator \<^verbatim>\<open>+\<close> and on \<^verbatim>\<open>2+\<close>,
  and no error is thrown there.
\<close>

theorem EvaluatePostfix_defined_when_well_formed:
  "(well_formed postfix 0 \<longrightarrow> fst (EvaluatePostfix postfix vars) \<noteq> Inl EmptyStack)
   \<and> EvaluateExpression [] vars = (Inl EmptyStack, vars)
   \<and> EvaluateExpression ''+'' vars = (Inl EmptyStack, vars)
   \<and> EvaluateExpression ''2+'' vars = (Inl EmptyStack, vars)"
proof (intro conjI impI)
  assume "well_formed postfix 0"
  then show "fst (EvaluatePostfix postfix vars) \<noteq> Inl EmptyStack"
    using well_formed_no_empty_stack [of postfix "[]" vars] by (simp add: EvaluatePostfix_def)
next
  show "EvaluateExpression [] vars = (Inl EmptyStack, vars)"
    by (simp add: eval_defs)
next
  show "EvaluateExpression ''+'' vars = (Inl EmptyStack, vars)"
    by (simp add: eval_defs)
next
  show "EvaluateExpression ''2+'' vars = (Inl EmptyStack, vars)"
    by (simp add: eval_defs)
qed

theorem EvaluatePostfix_defined_when_well_formed_witness:
  "InfixToPostfix ''2+3'' Map.empty =
     (Inr [mk_token NUMBER 2 NUL [], mk_token NUMBER 3 NUL [],
           mk_token OPERATOR 0 (CHR ''+'') []], Map.empty)
   \<and> well_formed [mk_token NUMBER 2 NUL [], mk_token NUMBER 3 NUL [],
                  mk_token OPERATOR 0 (CHR ''+'') []] 0
   \<and> fst (EvaluatePostfix [mk_token NUMBER 2 NUL [], mk_token NUMBER 3 NUL [],
                           mk_token OPERATOR 0 (CHR ''+'') []] Map.empty) \<noteq> Inl EmptyStack"
proof -
  let ?pf = "[mk_token NUMBER 2 NUL [], mk_token NUMBER 3 NUL [],
              mk_token OPERATOR 0 (CHR ''+'') []]"
  have a: "InfixToPostfix ''2+3'' Map.empty = (Inr ?pf, Map.empty)"
    by (simp add: eval_defs)
  have b: "well_formed ?pf 0" by (simp add: mk_token_def)
  from EvaluatePostfix_defined_when_well_formed [of ?pf Map.empty] b
  have "fst (EvaluatePostfix ?pf Map.empty) \<noteq> Inl EmptyStack"
    by blast
  with a b show ?thesis by blast
qed

text \<open>
  Claim C6. An operator token takes the top of the operand stack as its right-hand
  operand and the value below it as its left-hand operand, and \<^verbatim>\<open>/\<close> throws the
  division-by-zero error exactly when the right-hand operand is zero; any other divisor
  gives the quotient. So \<^verbatim>\<open>5/0\<close> fails with that error, \<^verbatim>\<open>6/3\<close> is 2 and \<^verbatim>\<open>5-3\<close> is 2.
\<close>

theorem Operator_operand_order_and_division_by_zero:
  "(tok_type token = OPERATOR \<longrightarrow>
      EvaluatePostfix_loop (token # postfix) (right # left # stack) vars =
        (case GetOperatorResult (tok_op token) left right of
           Inl e \<Rightarrow> (Inl e, vars)
         | Inr r \<Rightarrow> EvaluatePostfix_loop postfix (r # stack) vars))
   \<and> (GetOperatorResult (CHR ''/'') left right = Inl (Thrown DivisionByZero) \<longleftrightarrow> right = 0)
   \<and> (right \<noteq> 0 \<longrightarrow> GetOperatorResult (CHR ''/'') left right = Inr (left / right))
   \<and> EvaluateExpression ''5/0'' vars = (Inl (Thrown DivisionByZero), vars)
   \<and> EvaluateExpression ''6/3'' vars = (Inr 2, vars)
   \<and> EvaluateExpression ''5-3'' vars = (Inr 2, vars)"
  by (simp add: eval_defs)

theorem Operator_operand_order_and_division_by_zero_witness:
  "tok_type (mk_token OPERATOR 0 (CHR ''/'') []) = OPERATOR
   \<and> EvaluatePostfix_loop [mk_token OPERATOR 0 (CHR ''/'') []] [2, 6] Map.empty
       = (Inr 3, Map.empty)
   \<and> (2::real) \<noteq> 0
   \<and> GetOperatorResult (CHR ''/'') 6 2 = Inr 3"
  using Operator_operand_order_and_division_by_zero
    [of "mk_token OPERATOR 0 (CHR ''/'') []" "[]" 2 6 "[]" Map.empty]
  by (simp add: mk_token_def GetOperatorResult_def)

section \<open>Numeric literals\<close>

text \<open>
  Claim C1 (the code departs from it). The digits before the point accumulate as the
  claim says, and \<^verbatim>\<open>42\<close> is read as 42. After the point, \<^verbatim>\<open>decimals\<close> starts at 0 and
  is incremented only after the digit has been weighted by \<^verbatim>\<open>pow(10, -decimals)\<close>, so
  the first digit after the point has weight 1, not 1/10: \<^verbatim>\<open>0.5\<close> is read as 5 and
  \<^verbatim>\<open>3.14\<close> as 4.4.
\<close>

theorem GetNextToken_first_decimal_digit_has_weight_one:
  "GetNextToken ''0.5'' = Inr (mk_token NUMBER 5 NUL [], [])
   \<and> GetNextToken ''3.14'' = Inr (mk_token NUMBER (44 / 10) NUL [], [])
   \<and> GetNextToken ''42'' = Inr (mk_token NUMBER 42 NUL [], [])
   \<and> EvaluateExpression ''0.5'' vars = (Inr 5, vars)
   \<and> EvaluateExpression ''3.14'' vars = (Inr (44 / 10), vars)"
  by (simp add: eval_defs)

section \<open>Unmatched closing parenthesis\<close>

text \<open>
  Claim C5 (the code departs from it). On a \<^verbatim>\<open>)\<close> with no \<^verbatim>\<open>(\<close> on the operator stack,
  the loop of lines 286-292 empties the stack and line 294 then calls \<^verbatim>\<open>pop()\<close> on the
  empty \<^verbatim>\<open>std::stack\<close>. That call is undefined behaviour, not a no-op: the conversion of
  \<^verbatim>\<open>)\<close> and of \<^verbatim>\<open>2) + 3\<close> stops there.
\<close>

theorem InfixToPostfix_unmatched_close_pops_empty_stack:
  "InfixToPostfix '')'' vars = (Inl EmptyStack, vars)
   \<and> InfixToPostfix ''2) + 3'' vars = (Inl EmptyStack, vars)
   \<and> EvaluateExpression '')'' vars = (Inl EmptyStack, vars)"
  by (simp add: eval_defs)

section \<open>Variables\<close>

lemma isalpha_not_other:
  "isalpha c \<Longrightarrow> \<not> isspace c \<and> \<not> isdigit c \<and> c \<noteq> CHR ''.''"
  by (auto simp: isalpha_def isspace_def isdigit_def)

lemma name_loop_append:
  "list_all isalnum name \<Longrightarrow> \<not> isalnum d \<Longrightarrow>
   name_loop (name @ d # rest) acc = (acc @ name, d # rest)"
  by (induction name arbitrary: acc) auto

lemma GetNextToken_variable:
  assumes "is_identifier name" and "name \<notin> set functions_set"
  shows "GetNextToken (name @ '' + 1'') = Inr (mk_token VARIABLE 0 NUL name, ''+ 1'')"
proof -
  from assms(1) obtain c cs where n: "name = c # cs" and c: "isalpha c"
    and all: "list_all isalnum name"
    by (cases name) (auto simp: is_identifier_def)
  have sp: "\<not> isalnum (CHR '' '')"
    by (simp add: isalnum_def isalpha_def isdigit_def)
  have nl: "name_loop (c # cs @ '' + 1'') [] = (c # cs, '' + 1'')"
    using name_loop_append [OF all sp, of "''+ 1''" "[]"] unfolding n
    by (simp only: append_Cons append_Nil)
  have sk: "skip_spaces (name @ '' + 1'') = c # cs @ '' + 1''"
    using n isalpha_not_other [OF c] by simp
  have "GetNextToken (name @ '' + 1'') =
      (case name_loop (c # cs @ '' + 1'') [] of
         (name, rest) \<Rightarrow>
           (case skip_spaces rest of
              [] \<Rightarrow>
                if name \<in> set functions_set then Inr (mk_token FUNCTION 0 NUL name, [])
                else Inr (mk_token VARIABLE 0 NUL name, [])
            | d # ds \<Rightarrow>
                if d = CHR ''='' then Inr (mk_token ASSIGNMENT 0 NUL name, ds)
                else if name \<in> set functions_set
                then Inr (mk_token FUNCTION 0 NUL name, d # ds)
                else Inr (mk_token VARIABLE 0 NUL name, d # ds)))"
    unfolding GetNextToken_def sk using isalpha_not_other [OF c] c
    by (simp del: name_loop.simps)
  also have "\<dots> = Inr (mk_token VARIABLE 0 NUL name, ''+ 1'')"
    unfolding nl using assms(2) by (simp add: isspace_def n)
  finally show ?thesis .
qed

text \<open>
  Claim C7. The evaluator looks a variable up with \<^verbatim>\<open>find\<close>: a name that is absent from
  the store throws the undefined-variable error, and nothing is defaulted to zero; a
  name that is present has its stored value pushed. For every identifier \<open>y\<close> that is
  not a function name, \<^verbatim>\<open>y + 1\<close> therefore fails with that error when \<open>y\<close> has no
  value in the store, and is the stored value plus one when it has.
\<close>

theorem Variable_lookup_undefined_fails:
  "(tok_type token = VARIABLE \<and> vars (tok_func token) = None \<longrightarrow>
      EvaluatePostfix_loop (token # postfix) stack vars =
        (Inl (Thrown (UndefinedVariable (tok_func token))), vars))
   \<and> (tok_type token = VARIABLE \<and> vars (tok_func token) = Some x \<longrightarrow>
      EvaluatePostfix_loop (token # postfix) stack vars =
        EvaluatePostfix_loop postfix (x # stack) vars)
   \<and> (is_identifier name \<and> name \<notin> set functions_set \<and> vars name = None \<longrightarrow>
      EvaluateExpression (name @ '' + 1'') vars = (Inl (Thrown (UndefinedVariable name)), vars))
   \<and> (is_identifier name \<and> name \<notin> set functions_set \<and> vars name = Some x \<longrightarrow>
      EvaluateExpression (name @ '' + 1'') vars = (Inr (x + 1), vars))"
proof (intro conjI impI; (elim conjE)?)
  assume "tok_type token = VARIABLE" "vars (tok_func token) = None"
  then show "EvaluatePostfix_loop (token # postfix) stack vars =
        (Inl (Thrown (UndefinedVariable (tok_func token))), vars)"
    by simp
next
  assume "tok_type token = VARIABLE" "vars (tok_func token) = Some x"
  then show "EvaluatePostfix_loop (token # postfix) stack vars =
        EvaluatePostfix_loop postfix (x # stack) vars"
    by (simp add: map_index_def)
next
  assume a: "is_identifier name" "name \<notin> set functions_set" and v: "vars name = None"
  have "InfixToPostfix (name @ '' + 1'') vars =
     InfixToPostfix_loop ''+ 1'' [] [mk_token VARIABLE 0 NUL name] vars"
    using GetNextToken_variable [OF a]
    by (simp add: InfixToPostfix.simps InfixToPostfix_loop.simps [of "name @ '' + 1''"] mk_token_def)
  then show "EvaluateExpression (name @ '' + 1'') vars
     = (Inl (Thrown (UndefinedVariable name)), vars)"
    using v by (simp add: eval_defs)
next
  assume a: "is_identifier name" "name \<notin> set functions_set" and v: "vars name = Some x"
  have "InfixToPostfix (name @ '' + 1'') vars =
     InfixToPostfix_loop ''+ 1'' [] [mk_token VARIABLE 0 NUL name] vars"
    using GetNextToken_variable [OF a]
    by (simp add: InfixToPostfix.simps InfixToPostfix_loop.simps [of "name @ '' + 1''"] mk_token_def)
  then show "EvaluateExpression (name @ '' + 1'') vars = (Inr (x + 1), vars)"
    using v by (simp add: eval_defs)
qed

theorem Variable_lookup_undefined_fails_witness:
  "tok_type (mk_token VARIABLE 0 NUL ''y'') = VARIABLE
   \<and> Map.empty (tok_func (mk_token VARIABLE 0 NUL ''y'')) = (None :: real option)
   \<and> EvaluatePostfix_loop [mk_token VARIABLE 0 NUL ''y''] [] Map.empty
        = (Inl (Thrown (UndefinedVariable ''y'')), Map.empty)
   \<and> is_identifier ''y'' \<and> ''y'' \<notin> set functions_set
   \<and> EvaluateExpression ''y + 1'' Map.empty = (Inl (Thrown (UndefinedVariable ''y'')), Map.empty)
   \<and> [''y'' \<mapsto> 2::real] ''y'' = Some 2
   \<and> EvaluateExpression ''y + 1'' [''y'' \<mapsto> 2] = (Inr 3, [''y'' \<mapsto> 2])"
proof -
  have i: "is_identifier ''y''" "''y'' \<notin> set functions_set"
    by (simp_all add: is_identifier_def isalpha_def isalnum_def functions_set_def)
  from Variable_lookup_undefined_fails [of "mk_token VARIABLE 0 NUL ''y''" Map.empty "[]" "[]" 2 "''y''"] i
  have 1: "EvaluatePostfix_loop [mk_token VARIABLE 0 NUL ''y''] [] Map.empty
        = (Inl (Thrown (UndefinedVariable ''y'')), Map.empty)"
    and 2: "EvaluateExpression ''y + 1'' Map.empty = (Inl (Thrown (UndefinedVariable ''y'')), Map.empty)"
    by (simp_all add: mk_token_def)
  from Variable_lookup_undefined_fails [of "mk_token VARIABLE 0 NUL ''y''" "[''y'' \<mapsto> 2]" "[]" "[]" 2 "''y''"] i
  have 3: "EvaluateExpression ''y + 1'' [''y'' \<mapsto> 2] = (Inr 3, [''y'' \<mapsto> 2])"
    by simp
  from 1 2 3 i show ?thesis by (simp add: mk_token_def)
qed

section \<open>The character \<^verbatim>\<open>=\<close> outside an assignment\<close>

text \<open>
  Claim C4 does not hold as stated: the string given to \<^verbatim>\<open>strchr\<close> in line 158 contains
  \<^verbatim>\<open>=\<close>, so on \<^verbatim>\<open>= 5\<close> the lexer returns an operator token and throws nothing.
\<close>

theorem GetNextToken_equals_sign_counterexample:
  "GetNextToken ''= 5'' = Inr (mk_token OPERATOR 0 (CHR ''='') [], '' 5'')"
  by (simp add: eval_defs)

text \<open>
  Claim C4, amended. A \<^verbatim>\<open>=\<close> that does not follow an identifier is accepted by the
  lexer, which returns an operator token with the symbol \<^verbatim>\<open>=\<close>. The token has
  precedence 0, and it is the evaluator that rejects it, with the unknown-operator error,
  when it applies it to two operands, as in \<^verbatim>\<open>2 = 3\<close>.
\<close>

theorem GetNextToken_equals_sign_is_operator:
  "(skip_spaces s = CHR ''='' # rest \<longrightarrow>
      GetNextToken s = Inr (mk_token OPERATOR 0 (CHR ''='') [], rest))
   \<and> GetPrecedence (CHR ''='') = 0
   \<and> GetOperatorResult (CHR ''='') left right = Inl (Thrown UnknownOperator)
   \<and> EvaluateExpression ''2 = 3'' vars = (Inl (Thrown UnknownOperator), vars)"
  by (simp add: eval_defs)

theorem GetNextToken_equals_sign_is_operator_witness:
  "skip_spaces '' = 3'' = CHR ''='' # '' 3''
   \<and> GetNextToken '' = 3'' = Inr (mk_token OPERATOR 0 (CHR ''='') [], '' 3'')"
  using GetNextToken_equals_sign_is_operator [of "'' = 3''" "'' 3''"] by (simp add: isspace_def)

section \<open>Assignment\<close>

lemma GetNextToken_Nil: "GetNextToken [] = Inr (mk_token END 0 NUL [], [])"
  by (simp add: GetNextToken_def)

lemma assignment_leaves_loop:
  assumes "GetNextToken rest = Inr (token, rest')" and "tok_type token = ASSIGNMENT"
  shows "InfixToPostfix_loop rest stack result vars =
       (case EvaluateExpression rest' vars of
          (Inl e, vars') \<Rightarrow> (Inl e, vars')
        | (Inr v, vars') \<Rightarrow>
            (Inr [mk_token NUMBER v NUL []], vars'(tok_func token \<mapsto> v)))"
proof -
  from assms have "rest \<noteq> []"
    by (auto simp: GetNextToken_Nil mk_token_def)
  with assms show ?thesis
    by (simp add: InfixToPostfix_loop.simps [of rest stack result vars])
qed

text \<open>
  Claim C3. When the converter meets an assignment token, whatever the operator stack
  and the output hold at that point, it evaluates the unread rest of the input as a full
  expression on the same store. If that succeeds with a value, the value is stored under
  the name and the conversion returns the single number token of that value, so the
  whole evaluation returns it; if it fails, the failure is the outcome. So \<^verbatim>\<open>x = 5\<close>
  returns 5 and sets \<open>x\<close>, after which \<^verbatim>\<open>x + 1\<close> returns 6, and an assignment in the
  middle of an expression, as in \<^verbatim>\<open>2 * (3 + x = 5\<close>, discards what was parsed before it.
\<close>

theorem Assignment_evaluates_rest_and_stores:
  "(GetNextToken rest = Inr (token, rest') \<and> tok_type token = ASSIGNMENT \<longrightarrow>
      InfixToPostfix_loop rest stack result vars =
        (case EvaluateExpression rest' vars of
           (Inl e, vars') \<Rightarrow> (Inl e, vars')
         | (Inr v, vars') \<Rightarrow>
             (Inr [mk_token NUMBER v NUL []], vars'(tok_func token \<mapsto> v)))
      \<and> InfixToPostfix_loop rest stack result vars = InfixToPostfix_loop rest [] [] vars)
   \<and> (GetNextToken rest = Inr (token, rest') \<and> tok_type token = ASSIGNMENT
        \<and> EvaluateExpression rest' vars = (Inr v, vars') \<longrightarrow>
      InfixToPostfix_loop rest stack result vars =
        (Inr [mk_token NUMBER v NUL []], vars'(tok_func token \<mapsto> v))
      \<and> EvaluatePostfix [mk_token NUMBER v NUL []] (vars'(tok_func token \<mapsto> v)) =
        (Inr v, vars'(tok_func token \<mapsto> v))
      \<and> EvaluateExpression rest vars = (Inr v, vars'(tok_func token \<mapsto> v)))
   \<and> (GetNextToken rest = Inr (token, rest') \<and> tok_type token = ASSIGNMENT
        \<and> EvaluateExpression rest' vars = (Inl e, vars') \<longrightarrow>
      InfixToPostfix_loop rest stack result vars = (Inl e, vars')
      \<and> EvaluateExpression rest vars = (Inl e, vars'))
   \<and> EvaluateExpression ''x = 5'' vars = (Inr 5, vars(''x'' \<mapsto> 5))
   \<and> EvaluateExpression ''x + 1'' (vars(''x'' \<mapsto> 5)) = (Inr 6, vars(''x'' \<mapsto> 5))
   \<and> EvaluateExpression ''2 * (3 + x = 5'' vars = (Inr 5, vars(''x'' \<mapsto> 5))"
proof (intro conjI impI; (elim conjE)?)
  assume a: "GetNextToken rest = Inr (token, rest')" "tok_type token = ASSIGNMENT"
  show "InfixToPostfix_loop rest stack result vars =
        (case EvaluateExpression rest' vars of
           (Inl e, vars') \<Rightarrow> (Inl e, vars')
         | (Inr v, vars') \<Rightarrow>
             (Inr [mk_token NUMBER v NUL []], vars'(tok_func token \<mapsto> v)))"
    by (rule assignment_leaves_loop [OF a])
  show "InfixToPostfix_loop rest stack result vars = InfixToPostfix_loop rest [] [] vars"
    by (simp add: assignment_leaves_loop [OF a])
next
  assume a: "GetNextToken rest = Inr (token, rest')" "tok_type token = ASSIGNMENT"
    and r: "EvaluateExpression rest' vars = (Inr v, vars')"
  show "InfixToPostfix_loop rest stack result vars =
        (Inr [mk_token NUMBER v NUL []], vars'(tok_func token \<mapsto> v))"
    by (simp add: assignment_leaves_loop [OF a] r)
  show "EvaluatePostfix [mk_token NUMBER v NUL []] (vars'(tok_func token \<mapsto> v)) =
        (Inr v, vars'(tok_func token \<mapsto> v))"
    by (simp add: EvaluatePostfix_def mk_token_def)
  show "EvaluateExpression rest vars = (Inr v, vars'(tok_func token \<mapsto> v))"
    by (simp add: EvaluateExpression.simps [of rest] InfixToPostfix.simps
        assignment_leaves_loop [OF a] r EvaluatePostfix_def mk_token_def)
next
  assume a: "GetNextToken rest = Inr (token, rest')" "tok_type token = ASSIGNMENT"
    and r: "EvaluateExpression rest' vars = (Inl e, vars')"
  show "InfixToPostfix_loop rest stack result vars = (Inl e, vars')"
    by (simp add: assignment_leaves_loop [OF a] r)
  show "EvaluateExpression rest vars = (Inl e, vars')"
    by (simp add: EvaluateExpression.simps [of rest] InfixToPostfix.simps
        assignment_leaves_loop [OF a] r)
next
  show "EvaluateExpression ''x = 5'' vars = (Inr 5, vars(''x'' \<mapsto> 5))"
    by (simp add: eval_defs)
next
  show "EvaluateExpression ''x + 1'' (vars(''x'' \<mapsto> 5)) = (Inr 6, vars(''x'' \<mapsto> 5))"
    by (simp add: eval_defs)
next
  show "EvaluateExpression ''2 * (3 + x = 5'' vars = (Inr 5, vars(''x'' \<mapsto> 5))"
    by (simp add: eval_defs)
qed

theorem Assignment_evaluates_rest_and_stores_witness:
  "GetNextToken ''x = 5'' = Inr (mk_token ASSIGNMENT 0 NUL ''x'', '' 5'')
   \<and> tok_type (mk_token ASSIGNMENT 0 NUL ''x'') = ASSIGNMENT
   \<and> EvaluateExpression '' 5'' Map.empty = (Inr 5, Map.empty)
   \<and> InfixToPostfix_loop ''x = 5'' [mk_token OPERATOR 0 (CHR ''+'') []]
        [mk_token NUMBER 2 NUL []] Map.empty
       = (Inr [mk_token NUMBER 5 NUL []], [''x'' \<mapsto> 5])
   \<and> EvaluateExpression ''x = 5'' Map.empty = (Inr 5, [''x'' \<mapsto> 5])
   \<and> GetNextToken ''x = 1/0'' = Inr (mk_token ASSIGNMENT 0 NUL ''x'', '' 1/0'')
   \<and> EvaluateExpression '' 1/0'' Map.empty = (Inl (Thrown DivisionByZero), Map.empty)
   \<and> EvaluateExpression ''x = 1/0'' Map.empty = (Inl (Thrown DivisionByZero), Map.empty)"
proof -
  let ?t = "mk_token ASSIGNMENT 0 NUL ''x''"
  have g: "GetNextToken ''x = 5'' = Inr (?t, '' 5'')"
    and g': "GetNextToken ''x = 1/0'' = Inr (?t, '' 1/0'')"
    and t: "tok_type ?t = ASSIGNMENT" "tok_func ?t = ''x''"
    and r: "EvaluateExpression '' 5'' Map.empty = (Inr 5, Map.empty)"
    and r': "EvaluateExpression '' 1/0'' Map.empty = (Inl (Thrown DivisionByZero), Map.empty)"
    by (simp_all add: eval_defs)
  note th = Assignment_evaluates_rest_and_stores [of "''x = 5''" ?t "'' 5''" "[mk_token OPERATOR 0 (CHR ''+'') []]"
      "[mk_token NUMBER 2 NUL []]" Map.empty 5 Map.empty]
  note th' = Assignment_evaluates_rest_and_stores [of "''x = 1/0''" ?t "'' 1/0''" "[]" "[]" Map.empty 0 Map.empty
      "Thrown DivisionByZero"]
  from th g t r have 1: "InfixToPostfix_loop ''x = 5'' [mk_token OPERATOR 0 (CHR ''+'') []]
        [mk_token NUMBER 2 NUL []] Map.empty
       = (Inr [mk_token NUMBER 5 NUL []], [''x'' \<mapsto> 5])"
    and 2: "EvaluateExpression ''x = 5'' Map.empty = (Inr 5, [''x'' \<mapsto> 5])"
    by simp_all
  from th' g' t r' have 3:
    "EvaluateExpression ''x = 1/0'' Map.empty = (Inl (Thrown DivisionByZero), Map.empty)"
    by simp
  from g g' t r r' 1 2 3 show ?thesis by simp
qed

section \<open>Precedence and grouping\<close>



















lemma render_not_Nil: "grouped p e \<Longrightarrow> render e \<noteq> []"
  by (induction e arbitrary: p) auto








end
